theory Spec2Isabelle
  imports Main
begin

section \<open>JavaScript strings, buffers and the library calls of the parser\<close>

text \<open>
  A JavaScript string is a sequence of UTF-16 code units; a \<^verbatim>\<open>Buffer\<close> is a sequence of
  bytes.  The code unit of the line feed is 10.
\<close>

type_synonym jsstring = "nat list"

definition lit :: "string \<Rightarrow> jsstring" where
  "lit s = map of_char s"

definition LF :: nat where
  "LF = 10"

text \<open>
  The stream is created with \<^verbatim>\<open>objectMode: true\<close>, so a written chunk reaches
  \<^verbatim>\<open>transform\<close> as it is: a string (as the tests write) or a \<^verbatim>\<open>Buffer\<close> (as an HTTP
  request delivers).
\<close>

datatype chunk = Str jsstring | Buf "char list"

subsection \<open>\<^verbatim>\<open>chunk.toString()\<close>\<close>

text \<open>
  \<^verbatim>\<open>Buffer.prototype.toString()\<close> decodes the bytes of that one buffer as UTF-8; every
  ill-formed or truncated sequence becomes U+FFFD.  The decoder is the state machine of
  the Encoding Standard: the state holds the code point collected so far, the number of
  continuation bytes still expected, and the range allowed for the next byte.
\<close>

type_synonym utf8_state = "nat \<times> nat \<times> nat \<times> nat"

definition utf8_initial :: utf8_state where
  "utf8_initial = (0, 0, 0x80, 0xBF)"

definition code_units :: "nat \<Rightarrow> jsstring" where
  "code_units cp =
     (if cp < 0x10000 then [cp]
      else [0xD800 + (cp - 0x10000) div 0x400, 0xDC00 + (cp - 0x10000) mod 0x400])"

definition utf8_lead :: "nat \<Rightarrow> jsstring \<times> utf8_state" where
  "utf8_lead b =
     (if b \<le> 0x7F then ([b], utf8_initial)
      else if 0xC2 \<le> b \<and> b \<le> 0xDF then ([], (b - 0xC0, 1, 0x80, 0xBF))
      else if 0xE0 \<le> b \<and> b \<le> 0xEF then
        ([], (b - 0xE0, 2, if b = 0xE0 then 0xA0 else 0x80, if b = 0xED then 0x9F else 0xBF))
      else if 0xF0 \<le> b \<and> b \<le> 0xF4 then
        ([], (b - 0xF0, 3, if b = 0xF0 then 0x90 else 0x80, if b = 0xF4 then 0x8F else 0xBF))
      else ([0xFFFD], utf8_initial))"

fun utf8_step :: "utf8_state \<Rightarrow> nat \<Rightarrow> jsstring \<times> utf8_state" where
  "utf8_step (cp, needed, lower, upper) b =
     (if needed = 0 then utf8_lead b
      else if lower \<le> b \<and> b \<le> upper then
        (if needed = 1 then (code_units (cp * 64 + (b - 0x80)), utf8_initial)
         else ([], (cp * 64 + (b - 0x80), needed - 1, 0x80, 0xBF)))
      else (case utf8_lead b of (out, st) \<Rightarrow> (0xFFFD # out, st)))"

fun utf8_pending :: "utf8_state \<Rightarrow> bool" where
  "utf8_pending (cp, needed, lower, upper) = (needed \<noteq> 0)"

fun utf8_decode :: "utf8_state \<Rightarrow> nat list \<Rightarrow> jsstring" where
  "utf8_decode st [] = (if utf8_pending st then [0xFFFD] else [])"
| "utf8_decode st (b # bs) =
     (case utf8_step st b of (out, st') \<Rightarrow> out @ utf8_decode st' bs)"

fun toString :: "chunk \<Rightarrow> jsstring" where
  "toString (Str s) = s"
| "toString (Buf bs) = utf8_decode utf8_initial (map of_char bs)"

subsection \<open>\<^verbatim>\<open>split\<close>, \<^verbatim>\<open>pop\<close>, \<^verbatim>\<open>||\<close>, \<^verbatim>\<open>trim\<close>\<close>

text \<open>
  \<^verbatim>\<open>s.split(sep)\<close> for a one-unit separator: the segments between the separators, in
  order; the result is never empty (\<^verbatim>\<open>''.split('\n')\<close> is \<^verbatim>\<open>['']\<close>).
\<close>

fun js_split :: "nat \<Rightarrow> jsstring \<Rightarrow> jsstring list" where
  "js_split sep [] = [[]]"
| "js_split sep (c # cs) =
     (if c = sep then [] # js_split sep cs
      else (case js_split sep cs of
              [] \<Rightarrow> [[c]]
            | seg # segs \<Rightarrow> (c # seg) # segs))"

text \<open>
  \<^verbatim>\<open>lines.pop()\<close> removes and returns the last element, \<^verbatim>\<open>undefined\<close> (here \<open>None\<close>)
  on an empty array.  \<^verbatim>\<open>x || ''\<close> is \<^verbatim>\<open>''\<close> when \<^verbatim>\<open>x\<close> is \<^verbatim>\<open>undefined\<close> or the empty string.
\<close>

definition pop :: "'a list \<Rightarrow> 'a option \<times> 'a list" where
  "pop xs = (if xs = [] then (None, []) else (Some (last xs), butlast xs))"

definition or_empty :: "jsstring option \<Rightarrow> jsstring" where
  "or_empty x = (case x of None \<Rightarrow> [] | Some s \<Rightarrow> (if s = [] then [] else s))"

text \<open>The WhiteSpace and LineTerminator code units that \<^verbatim>\<open>trim\<close> strips.\<close>

definition is_space :: "nat \<Rightarrow> bool" where
  "is_space c \<longleftrightarrow>
     c = 0x09 \<or> c = 0x0A \<or> c = 0x0B \<or> c = 0x0C \<or> c = 0x0D \<or> c = 0x20 \<or> c = 0xA0
     \<or> c = 0x1680 \<or> (0x2000 \<le> c \<and> c \<le> 0x200A) \<or> c = 0x2028 \<or> c = 0x2029
     \<or> c = 0x202F \<or> c = 0x205F \<or> c = 0x3000 \<or> c = 0xFEFF"

definition trim :: "jsstring \<Rightarrow> jsstring" where
  "trim s = rev (dropWhile is_space (rev (dropWhile is_space s)))"

text \<open>A string is truthy when it is not empty.\<close>

definition truthy :: "jsstring \<Rightarrow> bool" where
  "truthy s \<longleftrightarrow> s \<noteq> []"

text \<open>Number to string, for a count: its decimal digits.\<close>

fun decimal :: "nat \<Rightarrow> jsstring" where
  "decimal n = (if n < 10 then [48 + n] else decimal (n div 10) @ [48 + n mod 10])"

section \<open>The parser: \<^verbatim>\<open>NdJsonStreamParser.createParser\<close>\<close>

text \<open>
  \<^verbatim>\<open>JSON.parse\<close> is a parameter \<open>parse\<close> of the model: it returns the parsed value
  (\<open>Inr\<close>) or throws an error with a message (\<open>Inl\<close>).  The value \<^verbatim>\<open>null\<close> is kept apart
  from all others, because the stream treats it apart.
\<close>

datatype 'v jsvalue = Null | Val 'v

type_synonym 'v json_parse = "jsstring \<Rightarrow> jsstring + 'v jsvalue"

text \<open>
  What one call does to the stream, in order: \<^verbatim>\<open>this.push(v)\<close> is \<open>Push v\<close>;
  \<^verbatim>\<open>this.emit(name)\<close>, whose \<^verbatim>\<open>name\<close> is the template
  \<^verbatim>\<open>Error occurred parsing stream item ${itemCount}: ${error.message}\<close>, is \<open>Emit n m\<close>
  for the count \<open>n\<close> and the message \<open>m\<close>; \<open>event_name n m\<close> is that name.
\<close>

datatype 'v event = Push "'v jsvalue" | Emit nat jsstring

definition event_name :: "nat \<Rightarrow> jsstring \<Rightarrow> jsstring" where
  "event_name n m = lit ''Error occurred parsing stream item '' @ decimal n @ lit '': '' @ m"

text \<open>
  The closure's variables \<^verbatim>\<open>buffer\<close> and \<^verbatim>\<open>itemCount\<close>.  The count is a JavaScript
  number, exact up to \<open>2\<^sup>5\<^sup>3\<close>; here it is a natural number.
\<close>

record parser_state =
  buffer :: jsstring
  itemCount :: nat

definition createParser :: parser_state where
  "createParser = \<lparr>buffer = [], itemCount = 0\<rparr>"

text \<open>The \<^verbatim>\<open>try\<close> block shared by \<^verbatim>\<open>transform\<close> and \<^verbatim>\<open>flush\<close>.\<close>

definition try_push :: "'v json_parse \<Rightarrow> nat \<Rightarrow> jsstring \<Rightarrow> 'v event list" where
  "try_push parse n s = (case parse s of Inr v \<Rightarrow> [Push v] | Inl m \<Rightarrow> [Emit n m])"

text \<open>The loop \<^verbatim>\<open>for (const line of lines)\<close>, from the count \<open>n\<close>.\<close>

fun process_lines :: "'v json_parse \<Rightarrow> nat \<Rightarrow> jsstring list \<Rightarrow> nat \<times> 'v event list" where
  "process_lines parse n [] = (n, [])"
| "process_lines parse n (line # lines) =
     (let n' = n + 1;
          out = (if truthy (trim line) then try_push parse n' line else [])
      in case process_lines parse n' lines of (k, outs) \<Rightarrow> (k, out @ outs))"

definition transform :: "'v json_parse \<Rightarrow> parser_state \<Rightarrow> chunk \<Rightarrow> parser_state \<times> 'v event list" where
  "transform parse st c =
     (let buf = buffer st @ toString c;
          (last_line, lines) = pop (js_split LF buf);
          buf' = or_empty last_line
      in case process_lines parse (itemCount st) lines of
           (k, outs) \<Rightarrow> (\<lparr>buffer = buf', itemCount = k\<rparr>, outs))"

definition flush :: "'v json_parse \<Rightarrow> parser_state \<Rightarrow> 'v event list" where
  "flush parse st =
     (if truthy (trim (buffer st)) then try_push parse (itemCount st) (buffer st) else [])"

text \<open>
  Calls of \<^verbatim>\<open>transform\<close> one after the other, one for each chunk of a list: the state
  they leave and what they push and emit.  Whether the stream makes these calls is the
  matter of the next section.
\<close>

fun write_all :: "'v json_parse \<Rightarrow> parser_state \<Rightarrow> chunk list \<Rightarrow> parser_state \<times> 'v event list" where
  "write_all parse st [] = (st, [])"
| "write_all parse st (c # cs) =
     (case transform parse st c of
        (st', outs) \<Rightarrow> (case write_all parse st' cs of (st'', outs') \<Rightarrow> (st'', outs @ outs')))"

section \<open>The stream and its consumer: \<^verbatim>\<open>NdJsonStreamParser.parseStream\<close>\<close>

text \<open>
  \<^verbatim>\<open>parseStream\<close> creates a parser, registers a listener for the event \<^verbatim>\<open>'parse-error'\<close> that
  appends to its array \<^verbatim>\<open>errors\<close>, pipes the source into the parser and yields every item
  the parser's readable side delivers.

  The readable side of a Node stream: \<^verbatim>\<open>push(null)\<close> marks the end of the data and queues
  nothing; pushing an item after that destroys the stream with
  \<^verbatim>\<open>ERR_STREAM_PUSH_AFTER_EOF\<close>; any other item is queued for the consumer.  \<^verbatim>\<open>emit(name)\<close>
  calls the listeners registered under exactly that name, here without an argument.

  The state of one parser in use: the closure's variables; the calls of \<^verbatim>\<open>push\<close> and
  \<^verbatim>\<open>emit\<close> made so far; the items queued for the consumer; whether the data has ended;
  the error the stream was destroyed with; whether the consumer's loop has ended and has
  destroyed the stream; the array \<^verbatim>\<open>errors\<close>.
\<close>

datatype stream_error = ERR_STREAM_PUSH_AFTER_EOF

record 'v piped =
  parser :: parser_state
  calls :: "'v event list"
  queue :: "'v list"
  ended :: bool
  errored :: "stream_error option"
  closed :: bool
  errors :: "unit list"

fun deliver :: "'v piped \<Rightarrow> 'v event \<Rightarrow> 'v piped" where
  "deliver s (Push Null) = s\<lparr>ended := True\<rparr>"
| "deliver s (Push (Val v)) =
     (if ended s then s\<lparr>errored := Some ERR_STREAM_PUSH_AFTER_EOF\<rparr>
      else s\<lparr>queue := queue s @ [v]\<rparr>)"
| "deliver s (Emit n m) =
     (if event_name n m = lit ''parse-error'' then s\<lparr>errors := errors s @ [()]\<rparr> else s)"

text \<open>
  \<^verbatim>\<open>parser.write(chunk)\<close>: the stream calls \<^verbatim>\<open>transform\<close>, unless it has been destroyed.
  The loop of \<^verbatim>\<open>transform\<close> runs to its end whatever \<^verbatim>\<open>push\<close> does, so all its calls are
  made.
\<close>

definition parser_write :: "'v json_parse \<Rightarrow> 'v piped \<Rightarrow> chunk \<Rightarrow> 'v piped" where
  "parser_write parse s c =
     (if errored s = None \<and> \<not> closed s then
        (case transform parse (parser s) c of
           (st, outs) \<Rightarrow> foldl deliver (s\<lparr>parser := st, calls := calls s @ outs\<rparr>) outs)
      else s)"

text \<open>
  \<^verbatim>\<open>parser.end()\<close>: the stream calls \<^verbatim>\<open>flush\<close>, unless it has been destroyed, and then
  ends the data itself.
\<close>

definition parser_end :: "'v json_parse \<Rightarrow> 'v piped \<Rightarrow> 'v piped" where
  "parser_end parse s =
     (if errored s = None \<and> \<not> closed s then
        (let outs = flush parse (parser s)
         in (foldl deliver (s\<lparr>calls := calls s @ outs\<rparr>) outs)\<lparr>ended := True\<rparr>)
      else s)"

text \<open>
  The consumer's turn: the \<^verbatim>\<open>for await\<close> loop of \<^verbatim>\<open>parseStream\<close> takes the items queued.
  When the data has ended, the loop ends, and leaving the loop destroys the parser: what
  the source writes later is dropped, and \<^verbatim>\<open>flush\<close> is not called.
\<close>

definition consumer_turn :: "'v piped \<Rightarrow> 'v piped" where
  "consumer_turn s = (if errored s = None \<and> ended s then s\<lparr>closed := True\<rparr> else s)"

text \<open>
  \<^verbatim>\<open>stream.pipe(parser)\<close> writes every chunk of the source to the parser and ends the
  parser after the last one.  \<^verbatim>\<open>transform\<close> and \<^verbatim>\<open>flush\<close> run without interruption, but
  whether the consumer's loop has caught up between two of them depends on when the
  chunks arrive.  So the source is given as it arrives: \<open>Chunk c\<close> is the next chunk,
  \<open>Turn\<close> a moment at which the consumer's loop has caught up with the stream.  Chunks
  with no \<open>Turn\<close> between them arrive before the loop runs again; the end of the source
  follows the last element.
\<close>

datatype arrival = Chunk chunk | Turn

fun pipe :: "'v json_parse \<Rightarrow> 'v piped \<Rightarrow> arrival list \<Rightarrow> 'v piped" where
  "pipe parse s [] = parser_end parse s"
| "pipe parse s (Chunk c # rest) = pipe parse (parser_write parse s c) rest"
| "pipe parse s (Turn # rest) = pipe parse (consumer_turn s) rest"


definition piped_parser :: "'v piped" where
  "piped_parser =
     \<lparr>parser = createParser, calls = [], queue = [], ended = False, errored = None,
      closed = False, errors = []\<rparr>"

text \<open>
  The parser used as the tests use it: the chunks are written one after the other, the
  parser is ended, and no \<^verbatim>\<open>for await\<close> loop consumes it.  \<open>run_parser\<close> is the list of the
  calls of \<^verbatim>\<open>push\<close> and \<^verbatim>\<open>emit\<close> the parser makes; \<open>Push Null\<close> in it is the call
  \<^verbatim>\<open>this.push(null)\<close>, which delivers nothing.
\<close>

definition run_parser :: "'v json_parse \<Rightarrow> chunk list \<Rightarrow> 'v event list" where
  "run_parser parse cs = calls (pipe parse piped_parser (map Chunk cs))"

text \<open>
  What a consumer that iterates the generator observes.  When the loop ends in order:
  the items yielded, and whether \<^verbatim>\<open>console.warn\<close> was called.  When the stream is destroyed
  with an error: that error, which the \<^verbatim>\<open>for await\<close> loop rethrows, so that the statements
  after the loop are not reached.
\<close>

datatype 'v outcome = Returned "'v list" bool | Thrown stream_error

definition parseStream :: "'v json_parse \<Rightarrow> arrival list \<Rightarrow> 'v outcome" where
  "parseStream parse source =
     (let s = pipe parse piped_parser source
      in case errored s of
           Some e \<Rightarrow> Thrown e
         | None \<Rightarrow> Returned (queue s) (length (errors s) > 0))"

fun warned :: "'v outcome \<Rightarrow> bool" where
  "warned (Returned items w) = w"
| "warned (Thrown e) = False"

section \<open>The decorator: \<^verbatim>\<open>NdJsonStreamReq\<close>\<close>

text \<open>
  The decorator's \<^verbatim>\<open>data\<close> argument is \<^verbatim>\<open>undefined\<close>, \<^verbatim>\<open>null\<close> or an options object whose
  field \<^verbatim>\<open>batchSize\<close> may be missing.
\<close>

datatype NdJsonStreamOptions = Undefined | NullOptions | Options "int option"

text \<open>\<^verbatim>\<open>data?.batchSize\<close> and \<^verbatim>\<open>x ?? 25\<close>.\<close>

fun optional_batchSize :: "NdJsonStreamOptions \<Rightarrow> int option" where
  "optional_batchSize Undefined = None"
| "optional_batchSize NullOptions = None"
| "optional_batchSize (Options b) = b"

definition nullish_or :: "int option \<Rightarrow> int \<Rightarrow> int" where
  "nullish_or x d = (case x of None \<Rightarrow> d | Some v \<Rightarrow> v)"

text \<open>
  The request: its headers (\<open>None\<close> when the request has no headers object, as in two
  of the tests) and what its body stream will deliver.  Header values are Latin-1
  strings, as Node's HTTP parser makes them; on these \<^verbatim>\<open>toLowerCase\<close> moves A to Z and the
  capital letters of U+00C0 to U+00DE (U+00D7 is no letter) 32 up.  Reading a property
  of \<^verbatim>\<open>null\<close> or \<^verbatim>\<open>undefined\<close> throws a \<^verbatim>\<open>TypeError\<close>.
\<close>

record request =
  headers :: "(jsstring \<times> jsstring) list option"
  stream :: "arrival list"

record 'v NdJsonStreamRequest = request +
  body :: "'v outcome"
  batchSize :: int

definition lower_unit :: "nat \<Rightarrow> nat" where
  "lower_unit c =
     (if (0x41 \<le> c \<and> c \<le> 0x5A) \<or> (0xC0 \<le> c \<and> c \<le> 0xDE \<and> c \<noteq> 0xD7) then c + 32 else c)"

definition toLowerCase :: "jsstring \<Rightarrow> jsstring" where
  "toLowerCase s = map lower_unit s"

fun starts_with :: "jsstring \<Rightarrow> jsstring \<Rightarrow> bool" where
  "starts_with s [] = True"
| "starts_with [] (p # ps) = False"
| "starts_with (c # cs) (p # ps) = (c = p \<and> starts_with cs ps)"

fun js_includes :: "jsstring \<Rightarrow> jsstring \<Rightarrow> bool" where
  "js_includes [] p = starts_with [] p"
| "js_includes (c # cs) p = (starts_with (c # cs) p \<or> js_includes cs p)"

datatype exception = TypeError | BadRequestException jsstring

definition NdJsonStreamReq ::
  "'v json_parse \<Rightarrow> NdJsonStreamOptions \<Rightarrow> request \<Rightarrow> exception + 'v NdJsonStreamRequest" where
  "NdJsonStreamReq parse data req =
     (let batch = nullish_or (optional_batchSize data) 25
      in case headers req of
           None \<Rightarrow> Inl TypeError
         | Some hs \<Rightarrow>
             (case map_of hs (lit ''content-type'') of
                None \<Rightarrow> Inl TypeError
              | Some contentType \<Rightarrow>
                  if \<not> js_includes (toLowerCase contentType) (lit ''application/x-ndjson'') then
                    Inl (BadRequestException
                      (lit ''Invalid content-type: '' @ contentType
                         @ lit ''. Expected application/x-ndjson''))
                  else
                    Inr \<lparr>headers = headers req, stream = stream req,
                          body = parseStream parse (stream req), batchSize = batch\<rparr>))"

section \<open>A fragment of \<^verbatim>\<open>JSON.parse\<close> for concrete inputs\<close>

text \<open>
  The theorems below hold for every \<open>parse\<close>.  For concrete inputs, \<open>parse_fragment\<close> is
  \<^verbatim>\<open>JSON.parse\<close> on the texts \<^verbatim>\<open>null\<close>, \<^verbatim>\<open>true\<close>, \<^verbatim>\<open>false\<close>, unsigned integers of at most
  15 digits and strings without escapes, with JSON white space around them; it returns
  there what \<^verbatim>\<open>JSON.parse\<close> returns.  It rejects every other text, with one fixed
  message in place of the engine's; it is applied only to texts of the fragment and to
  texts that are no JSON at all.
\<close>

datatype scalar = JNum nat | JBool bool | JStr jsstring

definition json_space :: "nat \<Rightarrow> bool" where
  "json_space c \<longleftrightarrow> c = 0x20 \<or> c = 0x09 \<or> c = 0x0A \<or> c = 0x0D"

definition is_digit :: "nat \<Rightarrow> bool" where
  "is_digit c \<longleftrightarrow> 48 \<le> c \<and> c \<le> 57"

definition is_uint :: "jsstring \<Rightarrow> bool" where
  "is_uint t \<longleftrightarrow> t \<noteq> [] \<and> length t \<le> 15 \<and> list_all is_digit t \<and> (t = [48] \<or> hd t \<noteq> 48)"

definition uint_value :: "jsstring \<Rightarrow> nat" where
  "uint_value t = foldl (\<lambda>a d. 10 * a + (d - 48)) 0 t"

definition is_plain_string :: "jsstring \<Rightarrow> bool" where
  "is_plain_string t \<longleftrightarrow>
     2 \<le> length t \<and> hd t = 0x22 \<and> last t = 0x22
     \<and> list_all (\<lambda>c. c \<noteq> 0x22 \<and> c \<noteq> 0x5C \<and> 0x20 \<le> c) (butlast (tl t))"

definition syntax_error :: jsstring where
  "syntax_error = lit ''is not valid JSON''"

definition parse_fragment :: "scalar json_parse" where
  "parse_fragment s =
     (let t = rev (dropWhile json_space (rev (dropWhile json_space s)))
      in if t = lit ''null'' then Inr Null
         else if t = lit ''true'' then Inr (Val (JBool True))
         else if t = lit ''false'' then Inr (Val (JBool False))
         else if is_uint t then Inr (Val (JNum (uint_value t)))
         else if is_plain_string t then Inr (Val (JStr (butlast (tl t))))
         else Inl syntax_error)"

section \<open>Notions used to state the properties\<close>



text \<open>
  The specification's "successfully parsed JSON values in input order": the values of
  the segments of the whole text between line feeds (the unterminated last one included)
  that are not blank and that \<open>parse\<close> accepts.
\<close>

definition spec_parsed_values :: "'v json_parse \<Rightarrow> jsstring \<Rightarrow> 'v jsvalue list" where
  "spec_parsed_values parse input =
     concat (map (\<lambda>l. if truthy (trim l) then (case parse l of Inr v \<Rightarrow> [v] | Inl m \<Rightarrow> []) else [])
       (js_split LF input))"




section \<open>Auxiliary facts\<close>

subsection \<open>Splitting at line feeds\<close>
























subsection \<open>The stream\<close>

lemma event_name_not_parse_error: "event_name n m \<noteq> lit ''parse-error''"
  by (simp add: event_name_def lit_def)

lemma deliver_errors: "errors (deliver s e) = errors s"
  by (cases "(s, e)" rule: deliver.cases) (simp_all add: event_name_not_parse_error)

lemma foldl_deliver_errors: "errors (foldl deliver s es) = errors s"
  by (induction es arbitrary: s) (simp_all add: deliver_errors)

lemma parser_write_errors: "errors (parser_write parse s c) = errors s"
  by (simp add: parser_write_def foldl_deliver_errors split: prod.splits)

lemma parser_end_errors: "errors (parser_end parse s) = errors s"
  by (simp add: parser_end_def Let_def foldl_deliver_errors)

lemma consumer_turn_errors: "errors (consumer_turn s) = errors s"
  by (simp add: consumer_turn_def)

lemma pipe_errors: "errors (pipe parse s source) = errors s"
  by (induction parse s source rule: pipe.induct)
    (simp_all add: parser_write_errors parser_end_errors consumer_turn_errors)









lemmas concrete =
  run_parser_def createParser_def transform_def flush_def pop_def or_empty_def
  truthy_def trim_def is_space_def try_push_def lit_def LF_def Let_def
  parse_fragment_def json_space_def is_uint_def is_digit_def uint_value_def
  is_plain_string_def syntax_error_def utf8_initial_def utf8_lead_def code_units_def
  parseStream_def piped_parser_def event_name_def spec_parsed_values_def
  parser_write_def parser_end_def consumer_turn_def

section \<open>Chunk boundaries\<close>

text \<open>
  Claim C1 at a character cut by a chunk boundary.  The record is the JSON string of
  the one letter U+00E9, in UTF-8 the bytes 22 C3 A9 22 0A.  \<^verbatim>\<open>transform\<close> decodes each
  buffer on its own: cut between the two bytes of the letter, the record is pushed as a
  string of two U+FFFD; in one chunk it is pushed as the string of U+00E9.
\<close>

theorem split_character_garbled:
  "run_parser parse_fragment [Buf [CHR 0x22, CHR 0xC3], Buf [CHR 0xA9, CHR 0x22, CHR 0x0A]]
     = [Push (Val (JStr [0xFFFD, 0xFFFD]))]
   \<and> run_parser parse_fragment [Buf [CHR 0x22, CHR 0xC3, CHR 0xA9, CHR 0x22, CHR 0x0A]]
     = [Push (Val (JStr [0xE9]))]"
  by (simp add: concrete)

section \<open>The carry-over buffer\<close>

text \<open>
  Claim C7 at the same cut, with no line feed received yet.  The input received is the
  bytes 22 C3 A9, the text of a quotation mark and U+00E9.  After the two calls of
  \<^verbatim>\<open>transform\<close> the buffer holds the quotation mark and two U+FFFD, which is no part of
  that text.
\<close>

theorem carry_holds_replacement_units:
  "buffer (fst (write_all parse_fragment createParser [Buf [CHR 0x22, CHR 0xC3], Buf [CHR 0xA9]]))
     = [0x22, 0xFFFD, 0xFFFD]
   \<and> toString (Buf [CHR 0x22, CHR 0xC3, CHR 0xA9]) = [0x22, 0xE9]"
  by (simp add: concrete)

section \<open>Lines and records\<close>





text \<open>
  Claim C6 at a trailing record that parses to \<^verbatim>\<open>null\<close>, and at a trailing record after
  a record that parses to \<^verbatim>\<open>null\<close>.

  The input \<^verbatim>\<open>7\<close>, line feed, \<^verbatim>\<open>null\<close> has two valid records.  \<^verbatim>\<open>flush\<close> parses the
  trailing one and gives its value to \<^verbatim>\<open>push\<close>, where \<^verbatim>\<open>null\<close> is the end-of-stream marker:
  the generator yields 7 alone, and the trailing record appears zero times.

  The input \<^verbatim>\<open>null\<close>, line feed, \<^verbatim>\<open>1\<close> has two valid records.  When the consumer's loop
  has caught up before the source ends, the loop has ended and destroyed the parser:
  \<^verbatim>\<open>flush\<close> is not called, the trailing record is never parsed and the generator yields
  nothing.  When the source ends first, \<^verbatim>\<open>flush\<close> pushes the trailing record after the end
  of the data and the iteration fails.
\<close>

theorem trailing_null_not_delivered:
  "spec_parsed_values parse_fragment (lit ''7\<newline>null'') = [Val (JNum 7), Null]
   \<and> flush parse_fragment (fst (write_all parse_fragment createParser [Str (lit ''7\<newline>null'')]))
       = [Push Null]
   \<and> parseStream parse_fragment [Chunk (Str (lit ''7\<newline>null''))] = Returned [JNum 7] False
   \<and> parseStream parse_fragment [Chunk (Str (lit ''7\<newline>null'')), Turn] = Returned [JNum 7] False
   \<and> spec_parsed_values parse_fragment (lit ''null\<newline>1'') = [Null, Val (JNum 1)]
   \<and> calls (pipe parse_fragment piped_parser [Chunk (Str (lit ''null\<newline>1'')), Turn]) = [Push Null]
   \<and> parseStream parse_fragment [Chunk (Str (lit ''null\<newline>1'')), Turn] = Returned [] False
   \<and> parseStream parse_fragment [Chunk (Str (lit ''null\<newline>1''))]
       = Thrown ERR_STREAM_PUSH_AFTER_EOF"
  by (simp add: concrete)

section \<open>The count that \<^verbatim>\<open>flush\<close> reports\<close>

text \<open>
  Claim C2 at the input \<^verbatim>\<open>1\<close>, line feed, \<^verbatim>\<open>oops\<close>.  The calls of \<^verbatim>\<open>transform\<close> leave
  the count at 1 and \<^verbatim>\<open>oops\<close> in the buffer; \<^verbatim>\<open>flush\<close> does not raise the count, and the
  diagnostic of the second line carries the index 1.  With a line feed after \<^verbatim>\<open>oops\<close> the
  line is counted by \<^verbatim>\<open>transform\<close>, and its diagnostic carries the index 2.
\<close>

theorem flush_reports_stale_count:
  "write_all parse_fragment createParser [Str (lit ''1\<newline>oops'')]
     = (\<lparr>buffer = lit ''oops'', itemCount = 1\<rparr>, [Push (Val (JNum 1))])
   \<and> flush parse_fragment \<lparr>buffer = lit ''oops'', itemCount = 1\<rparr> = [Emit 1 syntax_error]
   \<and> run_parser parse_fragment [Str (lit ''1\<newline>oops'')]
       = [Push (Val (JNum 1)), Emit 1 syntax_error]
   \<and> run_parser parse_fragment [Str (lit ''1\<newline>oops\<newline>'')]
       = [Push (Val (JNum 1)), Emit 2 syntax_error]"
  by (simp add: concrete)

text \<open>
  Claim C3 at the input \<^verbatim>\<open>oops\<close>, line feed, \<^verbatim>\<open>oops\<close>.  The diagnostics of the first and
  of the second line both carry the index 1.  With a line feed after the second line they
  carry 1 and 2.
\<close>

theorem diagnostic_index_repeats:
  "run_parser parse_fragment [Str (lit ''oops\<newline>oops'')]
     = [Emit 1 syntax_error, Emit 1 syntax_error]
   \<and> run_parser parse_fragment [Str (lit ''oops\<newline>oops\<newline>'')]
     = [Emit 1 syntax_error, Emit 2 syntax_error]"
  by (simp add: concrete)


section \<open>What the consumer receives\<close>

text \<open>
  Claim C8 at a record that parses to \<^verbatim>\<open>null\<close>.  \<^verbatim>\<open>transform\<close> gives the parsed value to
  \<^verbatim>\<open>push\<close> unchecked, and there \<^verbatim>\<open>null\<close> is the end-of-stream marker.

  The input \<^verbatim>\<open>null\<close>, line feed, has one successfully parsed value, and the generator
  yields nothing.  The input \<^verbatim>\<open>null\<close>, line feed, \<^verbatim>\<open>1\<close>, line feed, has two.  In one chunk,
  the same call of \<^verbatim>\<open>transform\<close> pushes 1 after the end of the data and the iteration
  fails.  In two chunks with a turn of the consumer between them, the loop has ended and
  destroyed the parser when the second chunk arrives: the record \<^verbatim>\<open>1\<close> is never parsed
  and the generator yields nothing.  In two chunks that arrive before the loop runs
  again, the second call of \<^verbatim>\<open>transform\<close> pushes 1 after the end of the data and the
  iteration fails.
\<close>

theorem null_record_ends_stream:
  "spec_parsed_values parse_fragment (lit ''null\<newline>'') = [Null]
   \<and> parseStream parse_fragment [Chunk (Str (lit ''null\<newline>''))] = Returned [] False
   \<and> spec_parsed_values parse_fragment (lit ''null\<newline>1\<newline>'') = [Null, Val (JNum 1)]
   \<and> parseStream parse_fragment [Chunk (Str (lit ''null\<newline>1\<newline>''))]
       = Thrown ERR_STREAM_PUSH_AFTER_EOF
   \<and> parseStream parse_fragment [Chunk (Str (lit ''null\<newline>'')), Turn, Chunk (Str (lit ''1\<newline>''))]
       = Returned [] False
   \<and> calls (pipe parse_fragment piped_parser
              [Chunk (Str (lit ''null\<newline>'')), Turn, Chunk (Str (lit ''1\<newline>''))])
       = [Push Null]
   \<and> parseStream parse_fragment [Chunk (Str (lit ''null\<newline>'')), Chunk (Str (lit ''1\<newline>''))]
       = Thrown ERR_STREAM_PUSH_AFTER_EOF"
  by (simp add: concrete)

text \<open>
  Claim C10.  For every source, malformed records included, the array \<^verbatim>\<open>errors\<close> of
  \<^verbatim>\<open>parseStream\<close> stays empty and \<^verbatim>\<open>console.warn\<close> is not called: the name of every event the
  parser emits for a parse failure starts with \<^verbatim>\<open>Error occurred parsing stream item\<close> and
  is never \<^verbatim>\<open>parse-error\<close>, the one name \<^verbatim>\<open>parseStream\<close> listens to.
\<close>

theorem parse_error_never_heard:
  "errors (pipe parse piped_parser source) = []
   \<and> \<not> warned (parseStream parse source)
   \<and> starts_with (event_name n m) (lit ''Error occurred parsing stream item'')
   \<and> event_name n m \<noteq> lit ''parse-error''"
proof -
  have e: "errors (pipe parse piped_parser source) = []"
    by (simp add: pipe_errors piped_parser_def)
  then have "\<not> warned (parseStream parse source)"
    by (simp add: parseStream_def Let_def split: option.splits)
  moreover have "starts_with (event_name n m) (lit ''Error occurred parsing stream item'')"
    by (simp add: event_name_def lit_def)
  ultimately show ?thesis
    using e event_name_not_parse_error by blast
qed

section \<open>The batch size\<close>

text \<open>
  Claim C9.  When the decorator returns a request, its \<^verbatim>\<open>batchSize\<close> is 25 for options
  that are \<^verbatim>\<open>undefined\<close>, \<^verbatim>\<open>null\<close> or without a \<^verbatim>\<open>batchSize\<close>, and the given value
  otherwise; its \<^verbatim>\<open>body\<close> is \<^verbatim>\<open>parseStream\<close> of the request's stream, whatever the options.
\<close>

theorem batchSize_default:
  assumes "NdJsonStreamReq parse data req = Inr r"
  shows "(data = Undefined \<or> data = NullOptions \<or> data = Options None \<longrightarrow> batchSize r = 25)
       \<and> (data = Options (Some b) \<longrightarrow> batchSize r = b)
       \<and> body r = parseStream parse (stream req)"
  using assms
  by (auto simp: NdJsonStreamReq_def nullish_or_def Let_def split: option.splits if_splits)

text \<open>The theorem at work: no options, and the batch size 50.\<close>

theorem batchSize_default_witness:
  "map_sum id batchSize
     (NdJsonStreamReq parse_fragment Undefined
        \<lparr>headers = Some [(lit ''content-type'', lit ''Application/X-NDJSON'')],
         stream = [Chunk (Str (lit ''7\<newline>''))]\<rparr>) = Inr 25
   \<and> map_sum id batchSize
     (NdJsonStreamReq parse_fragment (Options (Some 50))
        \<lparr>headers = Some [(lit ''content-type'', lit ''Application/X-NDJSON'')],
         stream = [Chunk (Str (lit ''7\<newline>''))]\<rparr>) = Inr 50"
proof -
  let ?req = "\<lparr>headers = Some [(lit ''content-type'', lit ''Application/X-NDJSON'')],
         stream = [Chunk (Str (lit ''7\<newline>''))]\<rparr>"
  let ?body = "Returned [JNum 7] False"
  have r1: "NdJsonStreamReq parse_fragment Undefined ?req
      = Inr \<lparr>headers = headers ?req, stream = stream ?req, body = ?body, batchSize = 25\<rparr>"
    by (simp add: NdJsonStreamReq_def nullish_or_def toLowerCase_def lower_unit_def concrete)
  have r2: "NdJsonStreamReq parse_fragment (Options (Some 50)) ?req
      = Inr \<lparr>headers = headers ?req, stream = stream ?req, body = ?body, batchSize = 50\<rparr>"
    by (simp add: NdJsonStreamReq_def nullish_or_def toLowerCase_def lower_unit_def concrete)
  from batchSize_default [OF r1, of 0] batchSize_default [OF r2, of 50] r1 r2 show ?thesis
    by simp
qed

end
